theory Spec2Isabelle
  imports Main
begin

section \<open>Python values and exceptions\<close>

text \<open>
  The values that travel through \<^verbatim>\<open>tcbon.py\<close> are the ones JSON can carry: events,
  handler payloads and responses are parsed from and rendered to JSON, and the identity
  attributes of a \<^verbatim>\<open>Process\<close> (\<^verbatim>\<open>name\<close>, \<^verbatim>\<open>pid\<close>, \<^verbatim>\<open>address\<close>, \<^verbatim>\<open>app_dir\<close>) are
  overwritten with fields of a JSON reply by the \<^verbatim>\<open>running\<close> property. A dict keeps its
  insertion order and is an association list. Floats are left out.
\<close>

datatype pyval =
    PNone
  | PBool bool
  | PInt int
  | PStr string
  | PList "pyval list"
  | PDict "(string \<times> pyval) list"

text \<open>The exception classes that the code raises or that the calls it makes can raise.
  \<^verbatim>\<open>RequestException\<close> stands for the exceptions of \<^verbatim>\<open>requests\<close> that are not a
  \<^verbatim>\<open>ConnectionError\<close> (a URL without a scheme, for one).\<close>

datatype exn =
    ProcessExists
  | ProcessDoesNotExist
  | ConnectionError
  | RequestException
  | TypeError
  | KeyError
  | ValueError
  | AttributeError
  | UnboundLocalError
  | OSError
  | KeyboardInterrupt
  | SystemExit

text \<open>\<^verbatim>\<open>isinstance(e, Exception)\<close>: what an \<^verbatim>\<open>except Exception\<close> clause catches.
  \<^verbatim>\<open>KeyboardInterrupt\<close> and \<^verbatim>\<open>SystemExit\<close> derive from \<^verbatim>\<open>BaseException\<close> only.\<close>

fun is_Exception :: "exn \<Rightarrow> bool" where
  "is_Exception KeyboardInterrupt = False"
| "is_Exception SystemExit = False"
| "is_Exception _ = True"

text \<open>Truth value of an object, as \<^verbatim>\<open>if x:\<close> and \<^verbatim>\<open>x or y\<close> test it.\<close>

fun truthy :: "pyval \<Rightarrow> bool" where
  "truthy PNone = False"
| "truthy (PBool b) = b"
| "truthy (PInt i) = (i \<noteq> 0)"
| "truthy (PStr s) = (s \<noteq> [])"
| "truthy (PList xs) = (xs \<noteq> [])"
| "truthy (PDict kvs) = (kvs \<noteq> [])"

text \<open>\<^verbatim>\<open>x[k]\<close> for a string key \<^verbatim>\<open>k\<close>: a dict looks the key up and raises \<^verbatim>\<open>KeyError\<close>
  when it is missing; every other value raises \<^verbatim>\<open>TypeError\<close> (a list or a string wants
  an integer index, the rest cannot be subscripted).\<close>

fun subscript :: "pyval \<Rightarrow> string \<Rightarrow> exn + pyval" where
  "subscript (PDict kvs) k = (case map_of kvs k of None \<Rightarrow> Inl KeyError | Some v \<Rightarrow> Inr v)"
| "subscript _ k = Inl TypeError"

text \<open>\<^verbatim>\<open>sub in s\<close> on strings: \<^verbatim>\<open>sub\<close> occurs in \<^verbatim>\<open>s\<close> as a contiguous piece.\<close>

fun occurs_in :: "string \<Rightarrow> string \<Rightarrow> bool" where
  "occurs_in sub [] = (sub = [])"
| "occurs_in sub (c # cs) = (take (length sub) (c # cs) = sub \<or> occurs_in sub cs)"

text \<open>\<^verbatim>\<open>k in x\<close> for a string \<^verbatim>\<open>k\<close>: key membership on a dict, element membership on
  a list, substring test on a string, \<^verbatim>\<open>TypeError\<close> on a value that is not iterable.\<close>

fun py_in :: "string \<Rightarrow> pyval \<Rightarrow> exn + bool" where
  "py_in k (PDict kvs) = Inr (k \<in> fst ` set kvs)"
| "py_in k (PList xs) = Inr (PStr k \<in> set xs)"
| "py_in k (PStr s) = Inr (occurs_in k s)"
| "py_in k _ = Inl TypeError"

text \<open>\<^verbatim>\<open>str(n)\<close> for an integer: its decimal digits, with a sign when negative.\<close>

definition digit_char :: "nat \<Rightarrow> char" where
  "digit_char d = ''0123456789'' ! d"

function str_nat :: "nat \<Rightarrow> string" where
  "str_nat n = (if n < 10 then [digit_char n] else str_nat (n div 10) @ [digit_char (n mod 10)])"
  by pat_completeness auto
termination
  by (relation "measure id") auto

declare str_nat.simps [simp del]

definition str_int :: "int \<Rightarrow> string" where
  "str_int i = (if i < 0 then CHR ''-'' # str_nat (nat (- i)) else str_nat (nat i))"

text \<open>\<^verbatim>\<open>s.lstrip('/')\<close>, \<^verbatim>\<open>s.rstrip('/')\<close> and \<^verbatim>\<open>s.split(':')[-1]\<close>.\<close>

definition lstrip :: "char \<Rightarrow> string \<Rightarrow> string" where
  "lstrip c s = dropWhile (\<lambda>x. x = c) s"

definition rstrip :: "char \<Rightarrow> string \<Rightarrow> string" where
  "rstrip c s = rev (dropWhile (\<lambda>x. x = c) (rev s))"

definition split_last :: "char \<Rightarrow> string \<Rightarrow> string" where
  "split_last c s = rev (takeWhile (\<lambda>x. x \<noteq> c) (rev s))"

text \<open>\<^verbatim>\<open>s.replace(old, new)\<close>: the occurrences of \<^verbatim>\<open>old\<close> are replaced from left to
  right without overlap; an empty \<^verbatim>\<open>old\<close> matches before every character and at the
  end.\<close>

function replace :: "string \<Rightarrow> string \<Rightarrow> string \<Rightarrow> string" where
  "replace old new s =
     (if old = [] then new @ concat (map (\<lambda>c. c # new) s)
      else if s = [] then []
      else if take (length old) s = old then new @ replace old new (drop (length old) s)
      else hd s # replace old new (tl s))"
  by pat_completeness auto
termination
  by (relation "measure (\<lambda>(old, new, s). length s)") auto

declare replace.simps [simp del]

text \<open>\<^verbatim>\<open>f.readlines()\<close>: the text cut after every line feed, each line keeping its own.\<close>

fun readlines :: "string \<Rightarrow> string list" where
  "readlines [] = []"
| "readlines (c # cs) =
     (if c = CHR 0x0A then [c] # readlines cs
      else (case readlines cs of [] \<Rightarrow> [[c]] | l # ls \<Rightarrow> (c # l) # ls))"

section \<open>The Process object\<close>

text \<open>
  An event handler is a callable of the embedding program. It receives the event and
  either returns a payload or raises; raising is the pair of the exception's class and the
  text \<^verbatim>\<open>traceback.format_exc()\<close> renders for it. A handler may read and write the
  program's own state (a counter, say), which is the type parameter \<open>'a\<close>.
\<close>

type_synonym 'a handler = "pyval \<Rightarrow> 'a \<Rightarrow> ((exn \<times> string) + pyval) \<times> 'a"

datatype level = DEBUG | INFO | ERROR

text \<open>
  The attributes of \<^verbatim>\<open>Process\<close>. \<open>log\<close> is the sequence of calls made on the logger
  \<^verbatim>\<open>self.log\<close>: the level, the message (or its \<^verbatim>\<open>%s\<close> template) and the arguments
  of the template. \<open>wsgi_thread\<close> is \<open>None\<close> or the thread serving the Flask
  application on the given port. The Flask application \<^verbatim>\<open>self.wsgi\<close> is not a field: its
  routes are the functions \<open>index\<close> and \<open>receive_event\<close> below. \<open>app\<close> is the state of
  the embedding program that handlers work on. The hooks \<^verbatim>\<open>setup_logger\<close>,
  \<^verbatim>\<open>setup_wsgi\<close>, \<^verbatim>\<open>on_start\<close> and \<^verbatim>\<open>on_stop\<close> do nothing in \<^verbatim>\<open>Process\<close> itself,
  which is the class modelled here.
\<close>

record 'a process =
  name :: pyval
  app_dir :: pyval
  pid :: pyval
  address :: pyval
  debug :: bool
  log :: "(level \<times> string \<times> pyval list) list"
  wsgi_thread :: "pyval option"
  wsgi_running :: bool
  event_handlers :: "string \<rightharpoonup> 'a handler"
  app :: 'a

definition log_call :: "level \<Rightarrow> string \<Rightarrow> pyval list \<Rightarrow> 'a process \<Rightarrow> 'a process" where
  "log_call l msg args s = s\<lparr>log := log s @ [(l, msg, args)]\<rparr>"

subsection \<open>Event dispatcher\<close>

text \<open>\<^verbatim>\<open>self.event_handlers.get(key, None)\<close>. The registry is keyed by event names,
  which are strings; a list or a dict cannot be hashed and raises \<^verbatim>\<open>TypeError\<close>, any
  other key is not in the registry.\<close>

fun handlers_get :: "(string \<rightharpoonup> 'a handler) \<Rightarrow> pyval \<Rightarrow> exn + 'a handler option" where
  "handlers_get m (PStr n) = Inr (m n)"
| "handlers_get m (PList xs) = Inl TypeError"
| "handlers_get m (PDict kvs) = Inl TypeError"
| "handlers_get m _ = Inr None"

text \<open>\<^verbatim>\<open>dict(success=True, **payload)\<close>: the payload must be a mapping, and must not
  bring a key \<^verbatim>\<open>success\<close> of its own (a keyword given twice). Either failure is a
  \<^verbatim>\<open>TypeError\<close>.\<close>

fun merge_success :: "pyval \<Rightarrow> exn + pyval" where
  "merge_success (PDict kvs) =
     (if ''success'' \<in> fst ` set kvs then Inl TypeError
      else Inr (PDict ((''success'', PBool True) # kvs)))"
| "merge_success _ = Inl TypeError"

text \<open>The text of \<^verbatim>\<open>traceback.format_exc()\<close> for the \<^verbatim>\<open>TypeError\<close> that
  \<^verbatim>\<open>dict(success=True, **payload)\<close> raises. Its frame lines depend on where the module
  is installed; only the head and the class are kept.\<close>

definition merge_traceback :: string where
  "merge_traceback = ''Traceback (most recent call last): TypeError''"

text \<open>The \<^verbatim>\<open>except Exception\<close> branch of \<^verbatim>\<open>_handle_event\<close>: log, then answer with the
  traceback.\<close>

definition handler_failed :: "string \<Rightarrow> 'a process \<Rightarrow> (exn + pyval) \<times> 'a process" where
  "handler_failed tb s =
     (Inr (PDict [(''success'', PBool False), (''message'', PStr tb)]),
      log_call ERROR ''Event handler raise an exception...'' [] s)"

text \<open>\<^verbatim>\<open>Process._handle_event\<close>. The handler call and the merge of its payload are both
  inside the \<^verbatim>\<open>try\<close>; the lookup of the handler and the answer for an unhandled event
  are outside of it.\<close>

definition handle_event :: "'a process \<Rightarrow> pyval \<Rightarrow> (exn + pyval) \<times> 'a process" where
  "handle_event s event =
     (case subscript event ''name'' of
        Inl e \<Rightarrow> (Inl e, s)
      | Inr key \<Rightarrow>
          (case handlers_get (event_handlers s) key of
             Inl e \<Rightarrow> (Inl e, s)
           | Inr (Some handler) \<Rightarrow>
               (case handler event (app s) of
                  (Inr payload, a) \<Rightarrow>
                    (case merge_success payload of
                       Inr response \<Rightarrow> (Inr response, s\<lparr>app := a\<rparr>)
                     | Inl e \<Rightarrow> handler_failed merge_traceback (s\<lparr>app := a\<rparr>))
                | (Inl (e, tb), a) \<Rightarrow>
                    (if is_Exception e then handler_failed tb (s\<lparr>app := a\<rparr>)
                     else (Inl e, s\<lparr>app := a\<rparr>)))
           | Inr None \<Rightarrow>
               (case key of
                  PStr n \<Rightarrow>
                    (Inr (PDict [(''success'', PBool True),
                                 (''message'', PStr (''Event received. no handler found for '' @ n))]),
                     s)
                | _ \<Rightarrow> (Inl TypeError, s))))"

text \<open>\<^verbatim>\<open>Process.register_event_handler\<close> and \<^verbatim>\<open>Process.unregister_event_handler\<close>.
  The event is a name, a string. Neither has a statement that can raise on a string, so
  the result is always \<open>Inr\<close> of the new state.\<close>

definition register_event_handler ::
  "'a process \<Rightarrow> string \<Rightarrow> 'a handler \<Rightarrow> exn + 'a process" where
  "register_event_handler s event handler =
     Inr ((log_call DEBUG ''%s will handle all %s events'' [PStr event] s)
            \<lparr>event_handlers := (event_handlers s)(event \<mapsto> handler)\<rparr>)"

definition unregister_event_handler :: "'a process \<Rightarrow> string \<Rightarrow> exn + 'a process" where
  "unregister_event_handler s event =
     Inr ((log_call DEBUG ''Removing handlers for %s'' [PStr event] s)
            \<lparr>event_handlers := (event_handlers s)(event := None)\<rparr>)"

subsection \<open>Routes of the control-plane server\<close>

text \<open>The message of the \<^verbatim>\<open>/event\<close> route for an event without a name; \<open>CHR 0x22\<close> is
  the double quote.\<close>

definition missing_name_message :: string where
  "missing_name_message =
     ''Event missing required field '' @ [CHR 0x22] @ ''name'' @ [CHR 0x22] @ ''.''"

text \<open>The route \<^verbatim>\<open>POST /event\<close>, \<^verbatim>\<open>receive_event\<close>. The argument is what
  \<^verbatim>\<open>request.get_json()\<close> returned, the parsed body.\<close>

definition receive_event :: "'a process \<Rightarrow> pyval \<Rightarrow> (exn + pyval) \<times> 'a process" where
  "receive_event s event =
     (case py_in ''name'' event of
        Inl e \<Rightarrow> (Inl e, s)
      | Inr False \<Rightarrow>
          (Inr (PDict [(''success'', PBool False), (''message'', PStr missing_name_message)]), s)
      | Inr True \<Rightarrow> handle_event s event)"

section \<open>The world outside the process\<close>

text \<open>
  Everything \<^verbatim>\<open>tcbon.py\<close> asks of the operating system and of the network, as data:
  \<^item> \<open>win32\<close>: \<^verbatim>\<open>sys.platform == 'win32'\<close>; \<open>getpid\<close>: \<^verbatim>\<open>os.getpid()\<close>;
    \<open>open_port\<close>: what \<^verbatim>\<open>get_open_port()\<close> returns; \<open>user_data_dir\<close>: the function of
    \<^verbatim>\<open>appdirs\<close>;
  \<^item> \<open>dirs\<close> and \<open>files\<close>: the directories that exist and the text of the files that
    exist. Creating a directory and writing a file succeed;
  \<^item> \<open>shell_status\<close>: the exit status of a shell command line, as \<^verbatim>\<open>p.wait()\<close> returns
    it; \<open>process_alive\<close>: whether \<^verbatim>\<open>os.kill(n, 0)\<close> finds a process;
  \<^item> \<open>http_get\<close> and \<open>http_post\<close>: what \<^verbatim>\<open>requests.get(url)\<close> and
    \<^verbatim>\<open>requests.post(url, json=body)\<close> do: raise, or return a response with a status
    code and a body, which is \<open>None\<close> when it is not JSON;
  \<^item> \<open>hooks\<close>: the signal handlers and exit functions installed so far.
  The server thread and the peers are not run by this model: what they answer is what
  the world's \<open>http_get\<close> and \<open>http_post\<close> say.
\<close>

datatype reply = Raises exn | Response nat "pyval option"

record world =
  win32 :: bool
  getpid :: int
  open_port :: int
  user_data_dir :: "string \<Rightarrow> string"
  dirs :: "string set"
  files :: "string \<rightharpoonup> string"
  shell_status :: "string \<Rightarrow> int"
  process_alive :: "int \<Rightarrow> bool"
  http_get :: "string \<Rightarrow> reply"
  http_post :: "string \<Rightarrow> pyval \<Rightarrow> reply"
  hooks :: "string list"

text \<open>\<^verbatim>\<open>os.path.exists(path)\<close>.\<close>

definition path_exists :: "world \<Rightarrow> string \<Rightarrow> bool" where
  "path_exists w p = (p \<in> dirs w \<or> files w p \<noteq> None)"

text \<open>\<^verbatim>\<open>requests.get(url)\<close> for any value: a URL that is not a string has no scheme.\<close>

fun requests_get :: "world \<Rightarrow> pyval \<Rightarrow> reply" where
  "requests_get w (PStr url) = http_get w url"
| "requests_get w _ = Raises RequestException"

text \<open>\<^verbatim>\<open>bool(response)\<close> is \<^verbatim>\<open>response.ok\<close>: the status is not a 4xx or 5xx.\<close>

definition response_ok :: "nat \<Rightarrow> bool" where
  "response_ok status = (\<not> (400 \<le> status \<and> status < 600))"

text \<open>\<^verbatim>\<open>os.kill(pid, 0)\<close>: the pid must be an integer; \<^verbatim>\<open>OSError\<close> when there is no such
  process.\<close>

fun os_kill :: "world \<Rightarrow> pyval \<Rightarrow> exn + unit" where
  "os_kill w (PInt n) = (if process_alive w n then Inr () else Inl OSError)"
| "os_kill w _ = Inl TypeError"

subsection \<open>Construction\<close>

text \<open>\<^verbatim>\<open>Process.__init__\<close>, with arguments of the documented types: \<^verbatim>\<open>name\<close> a string,
  \<^verbatim>\<open>address\<close> and \<^verbatim>\<open>app_dir\<close> a string or \<^verbatim>\<open>None\<close>. \<open>CHR 0x5C\<close> is the backslash.
  The state of the embedding program is given along.\<close>

definition init :: "world \<Rightarrow> string \<Rightarrow> string option \<Rightarrow> string option \<Rightarrow> bool \<Rightarrow> 'a \<Rightarrow> 'a process" where
  "init w nm addr dir dbg a =
     \<lparr>name = PStr nm,
      app_dir = PStr (rstrip CHR ''/'' (replace [CHR 0x5C] ''/''
                  (case dir of None \<Rightarrow> user_data_dir w nm
                   | Some d \<Rightarrow> if d = [] then user_data_dir w nm else d))),
      pid = PNone,
      address = (case addr of None \<Rightarrow> PNone
                 | Some ad \<Rightarrow> if ad = [] then PNone
                              else PStr (''http://'' @ replace ''http://'' [] ad)),
      debug = dbg,
      log = [],
      wsgi_thread = None,
      wsgi_running = False,
      event_handlers = Map.empty,
      app = a\<rparr>"

subsection \<open>Lock store\<close>

text \<open>The property \<^verbatim>\<open>pid_file\<close>: \<^verbatim>\<open>self.app_dir + '/.pid'\<close>, a \<^verbatim>\<open>TypeError\<close> when
  \<^verbatim>\<open>app_dir\<close> is not a string.\<close>

definition pid_file :: "'a process \<Rightarrow> exn + string" where
  "pid_file s = (case app_dir s of PStr d \<Rightarrow> Inr (d @ ''/.pid'') | _ \<Rightarrow> Inl TypeError)"

text \<open>\<^verbatim>\<open>Process._read_pid_file\<close>: the two lines of the file as \<^verbatim>\<open>readlines\<close> gives them.
  \<^verbatim>\<open>open\<close> raises when there is no such file, and unpacking raises \<^verbatim>\<open>ValueError\<close>
  when there are not exactly two lines.\<close>

definition read_pid_file :: "'a process \<Rightarrow> world \<Rightarrow> (exn + string \<times> string) \<times> 'a process" where
  "read_pid_file s w =
     (case pid_file s of
        Inl e \<Rightarrow> (Inl e, s)
      | Inr path \<Rightarrow>
          (let s1 = log_call DEBUG (''Reading '' @ path) [] s in
           case files w path of
             None \<Rightarrow> (Inl OSError, s1)
           | Some txt \<Rightarrow>
               (case readlines txt of
                  [pid_line, address_line] \<Rightarrow> (Inr (pid_line, address_line), s1)
                | _ \<Rightarrow> (Inl ValueError, s1))))"

text \<open>\<^verbatim>\<open>Process._write_pid_file(pid, address)\<close>, called with the integer of
  \<^verbatim>\<open>os.getpid()\<close>. The text written ends with \<^verbatim>\<open>self.address\<close>: the parameter
  \<^verbatim>\<open>address\<close> is not read. A directory that is an integer or a boolean would be taken by
  \<^verbatim>\<open>os.path.exists\<close> for a file descriptor, and the \<^verbatim>\<open>TypeError\<close> comes from the
  concatenation that follows, before anything is written or logged. When
  \<^verbatim>\<open>self.address\<close> is not a string the file is already open, and is left empty.\<close>

definition write_pid_file ::
  "'a process \<Rightarrow> world \<Rightarrow> int \<Rightarrow> pyval \<Rightarrow> (exn + unit) \<times> 'a process \<times> world" where
  "write_pid_file s w p addr =
     (case app_dir s of
        PStr d \<Rightarrow>
          (let (s1, w1) =
                 (if \<not> path_exists w d
                  then (log_call DEBUG (''Creating '' @ d) [] s, w\<lparr>dirs := insert d (dirs w)\<rparr>)
                  else (s, w));
               path = d @ ''/.pid'';
               s2 = log_call DEBUG (''Writing '' @ path) [] s1
           in case address s of
                PStr a \<Rightarrow>
                  (Inr (), s2, w1\<lparr>files := (files w1)(path \<mapsto> str_int p @ [CHR 0x0A] @ a)\<rparr>)
              | _ \<Rightarrow> (Inl TypeError, s2, w1\<lparr>files := (files w1)(path \<mapsto> [])\<rparr>))
      | _ \<Rightarrow> (Inl TypeError, s, w))"

subsection \<open>Liveness checker\<close>

text \<open>The property \<^verbatim>\<open>running\<close>, in the order of its source. First the probe of an
  address the object already has: a reply overwrites the identity attributes one by one
  and the answer is \<open>True\<close>; a missing field or a reply that is not a JSON object raises
  after the assignments made so far. Only \<^verbatim>\<open>requests.ConnectionError\<close> is caught, and
  then there is no answer yet (\<open>None\<close>).\<close>

definition probe_address :: "'a process \<Rightarrow> world \<Rightarrow> (exn + bool) option \<times> 'a process" where
  "probe_address s w =
     (if truthy (address s) then
        (case requests_get w (address s) of
           Raises e \<Rightarrow>
             (if e = ConnectionError
              then (None, log_call DEBUG ''Process had incorrect address.'' [] s)
              else (Some (Inl e), s))
         | Response status None \<Rightarrow> (Some (Inl ValueError), s)
         | Response status (Some json) \<Rightarrow>
             (case subscript json ''name'' of
                Inl e \<Rightarrow> (Some (Inl e), s)
              | Inr n \<Rightarrow>
                  (case subscript json ''pid'' of
                     Inl e \<Rightarrow> (Some (Inl e), s\<lparr>name := n\<rparr>)
                   | Inr p \<Rightarrow>
                       (case subscript json ''address'' of
                          Inl e \<Rightarrow> (Some (Inl e), s\<lparr>name := n, pid := p\<rparr>)
                        | Inr a \<Rightarrow>
                            (case subscript json ''app_dir'' of
                               Inl e \<Rightarrow> (Some (Inl e), s\<lparr>name := n, pid := p, address := a\<rparr>)
                             | Inr d \<Rightarrow>
                                 (Some (Inr True),
                                  s\<lparr>name := n, pid := p, address := a, app_dir := d\<rparr>))))))
      else (None, s))"

text \<open>The last step: \<^verbatim>\<open>requests.get(address)\<close> on the recorded address, outside of any
  \<^verbatim>\<open>try\<close>, then the test \<^verbatim>\<open>if not response\<close>.\<close>

definition check_server :: "'a process \<Rightarrow> world \<Rightarrow> string \<Rightarrow> string \<Rightarrow> (exn + bool) \<times> 'a process" where
  "check_server s w pid_line address_line =
     (let s1 = log_call DEBUG (''Found Process '' @ pid_line) [] s;
          s2 = log_call DEBUG (''Checking '' @ address_line) [] s1
      in case http_get w address_line of
           Raises e \<Rightarrow> (Inl e, s2)
         | Response status body \<Rightarrow>
             (if \<not> response_ok status
              then (Inr False, log_call DEBUG ''Got no response from wsgi server.'' [] s2)
              else (Inr True,
                    log_call DEBUG ''WSGI server is running, Process is accepting events.'' [] s2)))"

text \<open>The check of the recorded pid, which is the first line of the file, a string. On
  Windows it is appended to a shell command; elsewhere it is handed to \<^verbatim>\<open>os.kill\<close>,
  whose \<^verbatim>\<open>OSError\<close> alone is caught.\<close>

definition check_process :: "'a process \<Rightarrow> world \<Rightarrow> string \<Rightarrow> string \<Rightarrow> (exn + bool) \<times> 'a process" where
  "check_process s w pid_line address_line =
     (if win32 w then
        (if shell_status w (''powershell Get-Process -Id '' @ pid_line) = 1
         then (Inr False, log_call DEBUG ''Process %s not found.'' [PStr pid_line] s)
         else check_server s w pid_line address_line)
      else
        (case os_kill w (PStr pid_line) of
           Inl e \<Rightarrow>
             (if e = OSError
              then (Inr False, log_call DEBUG ''Process %s not found.'' [PStr pid_line] s)
              else (Inl e, s))
         | Inr u \<Rightarrow> check_server s w pid_line address_line))"

text \<open>The lock file: absent, unreadable (any \<^verbatim>\<open>Exception\<close> of the read is caught), or
  read, in which case \<^verbatim>\<open>self.pid\<close> and \<^verbatim>\<open>self.address\<close> become its two lines.\<close>

definition check_pid_file :: "'a process \<Rightarrow> world \<Rightarrow> (exn + bool) \<times> 'a process" where
  "check_pid_file s w =
     (case pid_file s of
        Inl e \<Rightarrow> (Inl e, s)
      | Inr path \<Rightarrow>
          (if \<not> path_exists w path
           then (Inr False, log_call DEBUG ''Process is not running. No .pid file found.'' [] s)
           else
             (case read_pid_file (log_call DEBUG ''Found .pid file'' [] s) w of
                (Inl e, s1) \<Rightarrow>
                  (if is_Exception e then (Inr False, log_call ERROR ''Invalid .pid file.'' [] s1)
                   else (Inl e, s1))
              | (Inr (pid_line, address_line), s1) \<Rightarrow>
                  check_process (s1\<lparr>pid := PStr pid_line, address := PStr address_line\<rparr>) w
                    pid_line address_line)))"

definition running :: "'a process \<Rightarrow> world \<Rightarrow> (exn + bool) \<times> 'a process" where
  "running s w =
     (if wsgi_running s then (Inr True, s)
      else (case probe_address s w of
              (Some answer, s1) \<Rightarrow> (answer, s1)
            | (None, s1) \<Rightarrow> check_pid_file s1 w))"

subsection \<open>Remote client\<close>

text \<open>\<^verbatim>\<open>Process.get\<close> and \<^verbatim>\<open>Process.send\<close>. The URI is a string concatenation, a
  \<^verbatim>\<open>TypeError\<close> when \<^verbatim>\<open>self.address\<close> is not a string; \<^verbatim>\<open>response.json()\<close> raises
  \<^verbatim>\<open>ValueError\<close> on a body that is not JSON.\<close>

definition reply_json :: "reply \<Rightarrow> exn + pyval" where
  "reply_json r =
     (case r of
        Raises e \<Rightarrow> Inl e
      | Response status None \<Rightarrow> Inl ValueError
      | Response status (Some json) \<Rightarrow> Inr json)"

definition get :: "'a process \<Rightarrow> world \<Rightarrow> string \<Rightarrow> (exn + pyval) \<times> 'a process" where
  "get s w route =
     (case running s w of
        (Inl e, s1) \<Rightarrow> (Inl e, s1)
      | (Inr False, s1) \<Rightarrow> (Inl ProcessDoesNotExist, s1)
      | (Inr True, s1) \<Rightarrow>
          (case address s1 of
             PStr a \<Rightarrow> (reply_json (http_get w (a @ ''/'' @ lstrip CHR ''/'' route)), s1)
           | _ \<Rightarrow> (Inl TypeError, s1)))"

definition send :: "'a process \<Rightarrow> world \<Rightarrow> string \<Rightarrow> pyval \<Rightarrow> (exn + pyval) \<times> 'a process" where
  "send s w route payload =
     (case running s w of
        (Inl e, s1) \<Rightarrow> (Inl e, s1)
      | (Inr False, s1) \<Rightarrow> (Inl ProcessDoesNotExist, s1)
      | (Inr True, s1) \<Rightarrow>
          (case address s1 of
             PStr a \<Rightarrow>
               (reply_json (http_post w (a @ ''/'' @ lstrip CHR ''/'' route)
                              (if truthy payload then payload else PDict [])), s1)
           | _ \<Rightarrow> (Inl TypeError, s1)))"

subsection \<open>Lifecycle controller\<close>

text \<open>\<^verbatim>\<open>Process.start\<close>. The port is the one of \<^verbatim>\<open>get_open_port()\<close> when there is no
  address, else the text after the last colon of the address (\<^verbatim>\<open>AttributeError\<close> when
  the address is not a string). The thread is started, the flag set, the two signal
  handlers and the exit function installed, and the lock file written last.\<close>

definition start :: "'a process \<Rightarrow> world \<Rightarrow> (exn + unit) \<times> 'a process \<times> world" where
  "start s w =
     (case running s w of
        (Inl e, s1) \<Rightarrow> (Inl e, s1, w)
      | (Inr True, s1) \<Rightarrow> (Inl ProcessExists, s1, w)
      | (Inr False, s1) \<Rightarrow>
          (let s2 = s1\<lparr>pid := PInt (getpid w)\<rparr> in
           case (if \<not> truthy (address s2)
                 then Inr (s2\<lparr>address := PStr (''http://127.0.0.1:'' @ str_int (open_port w))\<rparr>,
                           PInt (open_port w))
                 else (case address s2 of
                         PStr a \<Rightarrow> Inr (s2, PStr (split_last CHR '':'' a))
                       | _ \<Rightarrow> Inl AttributeError)) of
             Inl e \<Rightarrow> (Inl e, s2, w)
           | Inr (s3, port) \<Rightarrow>
               (let s4 = s3\<lparr>wsgi_thread := Some port, wsgi_running := True\<rparr>;
                    s5 = log_call INFO ''Serving Process %s at %s'' [pid s4, address s4] s4;
                    w1 = w\<lparr>hooks := hooks w @ [''SIGTERM'', ''SIGINT'', ''atexit'']\<rparr>
                in write_pid_file s5 w1 (getpid w) (address s5))))"

text \<open>The end of \<^verbatim>\<open>Process.stop\<close>, after the \<^verbatim>\<open>try\<close>: join the thread if there is
  one, reset the attributes, and \<^verbatim>\<open>return response\<close>. The local variable \<^verbatim>\<open>response\<close>
  is bound only when \<^verbatim>\<open>self.send('stop')\<close> returned; reading it unbound raises
  \<^verbatim>\<open>UnboundLocalError\<close>. The join returns when the thread has ended, which is not
  modelled, and neither is the fresh Flask application that \<^verbatim>\<open>self.wsgi\<close> becomes.\<close>

definition stop_finish :: "pyval option \<Rightarrow> 'a process \<Rightarrow> (exn + pyval) \<times> 'a process" where
  "stop_finish response s =
     (let s1 = (if wsgi_thread s \<noteq> None
                then log_call DEBUG ''Waiting for wsgi_thread to finish...'' [] s else s);
          s2 = log_call DEBUG ''WSGI server successfully shut down.'' [] s1;
          s3 = s2\<lparr>wsgi_running := False, wsgi_thread := None\<rparr>
      in (case response of None \<Rightarrow> Inl UnboundLocalError | Some r \<Rightarrow> Inr r, s3))"

text \<open>\<^verbatim>\<open>Process.stop\<close>. Of the exceptions of \<^verbatim>\<open>self.send('stop')\<close> only
  \<^verbatim>\<open>requests.ConnectionError\<close> is caught.\<close>

definition stop :: "'a process \<Rightarrow> world \<Rightarrow> (exn + pyval) \<times> 'a process" where
  "stop s w =
     (case running s w of
        (Inl e, s1) \<Rightarrow> (Inl e, s1)
      | (Inr False, s1) \<Rightarrow> (Inl ProcessDoesNotExist, s1)
      | (Inr True, s1) \<Rightarrow>
          (case send s1 w ''stop'' PNone of
             (Inl e, s2) \<Rightarrow>
               (if e = ConnectionError
                then stop_finish None
                       (log_call ERROR ''Process wsgi server already shutdown.'' [] s2)
                else (Inl e, s2))
           | (Inr r, s2) \<Rightarrow> stop_finish (Some r) s2))"

subsection \<open>The identity route\<close>

text \<open>The route \<^verbatim>\<open>GET /\<close>, \<^verbatim>\<open>index\<close>: the dict handed to \<^verbatim>\<open>jsonify\<close>.\<close>

definition index :: "'a process \<Rightarrow> world \<Rightarrow> pyval" where
  "index s w =
     PDict [(''succes'', PBool True),
            (''name'', name s),
            (''pid'', PStr (str_int (getpid w))),
            (''app_dir'', app_dir s),
            (''address'', address s)]"

section \<open>Concrete processes and worlds\<close>

text \<open>A POSIX machine on which nothing answers and no lock file exists.\<close>

definition quiet_world :: world where
  "quiet_world =
     \<lparr>win32 = False, getpid = 4242, open_port = 50000,
      user_data_dir = (\<lambda>n. ''/home/user/.local/share/'' @ n),
      dirs = {}, files = Map.empty,
      shell_status = (\<lambda>c. 0), process_alive = (\<lambda>n. False),
      http_get = (\<lambda>url. Raises ConnectionError),
      http_post = (\<lambda>url body. Raises ConnectionError),
      hooks = []\<rparr>"

text \<open>\<^verbatim>\<open>Process('demo', address='127.0.0.1:9876', app_dir='/tmp/demo/')\<close>, never
  started; the embedding program's state is a counter.\<close>

definition demo :: "int process" where
  "demo = init quiet_world ''demo'' (Some ''127.0.0.1:9876'') (Some ''/tmp/demo/'') False 0"

text \<open>The same object and its world after \<^verbatim>\<open>demo.start()\<close>.\<close>

definition served :: "int process" where
  "served = fst (snd (start demo quiet_world))"

definition served_world :: world where
  "served_world = snd (snd (start demo quiet_world))"

text \<open>A Windows machine with a lock file left behind by an instance that is gone: the
  recorded pid is in use again (the shell command returns 0), and nothing listens on the
  recorded address.\<close>

definition stale_world :: world where
  "stale_world =
     \<lparr>win32 = True, getpid = 5150, open_port = 50000,
      user_data_dir = (\<lambda>n. ''C:/Users/user/AppData/Local/'' @ n),
      dirs = {''C:/demo''},
      files = [''C:/demo/.pid'' \<mapsto> ''4242'' @ [CHR 0x0A] @ ''http://127.0.0.1:9876''],
      shell_status = (\<lambda>c. 0), process_alive = (\<lambda>n. True),
      http_get = (\<lambda>url. Raises ConnectionError),
      http_post = (\<lambda>url body. Raises ConnectionError),
      hooks = []\<rparr>"

text \<open>\<^verbatim>\<open>Process('demo', app_dir='C:\\demo')\<close> on that machine, never started.\<close>

definition newcomer :: "int process" where
  "newcomer = init stale_world ''demo'' None (Some (''C:'' @ [CHR 0x5C] @ ''demo'')) False 0"

text \<open>Two handlers on the counter. \<open>increment\<close> adds \<^verbatim>\<open>event.get('value', 1)\<close> and
  returns the new count; \<open>broken\<close> raises a \<^verbatim>\<open>ValueError\<close>.\<close>

definition increment :: "int handler" where
  "increment event n =
     (case subscript event ''value'' of
        Inr (PInt v) \<Rightarrow> (Inr (PDict [(''value'', PInt (n + v))]), n + v)
      | _ \<Rightarrow> (Inr (PDict [(''value'', PInt (n + 1))]), n + 1))"

definition broken :: "int handler" where
  "broken event n =
     (Inl (ValueError, ''Traceback (most recent call last): ValueError: boom''), n)"

definition registered :: "int process" where
  "registered = demo\<lparr>event_handlers := [''increment'' \<mapsto> increment, ''boom'' \<mapsto> broken]\<rparr>"

section \<open>Facts about the concrete processes\<close>

lemmas str_simps = str_int_def str_nat.simps digit_char_def

lemma demo_eq:
  "demo = \<lparr>name = PStr ''demo'', app_dir = PStr ''/tmp/demo'', pid = PNone,
            address = PStr ''http://127.0.0.1:9876'', debug = False, log = [],
            wsgi_thread = None, wsgi_running = False, event_handlers = Map.empty, app = 0\<rparr>"
  by (simp add: demo_def init_def replace.simps rstrip_def)

lemma newcomer_eq:
  "newcomer = \<lparr>name = PStr ''demo'', app_dir = PStr ''C:/demo'', pid = PNone,
                address = PNone, debug = False, log = [],
                wsgi_thread = None, wsgi_running = False, event_handlers = Map.empty, app = 0\<rparr>"
  by (simp add: newcomer_def init_def replace.simps rstrip_def)

lemma registered_eq:
  "registered = \<lparr>name = PStr ''demo'', app_dir = PStr ''/tmp/demo'', pid = PNone,
                  address = PStr ''http://127.0.0.1:9876'', debug = False, log = [],
                  wsgi_thread = None, wsgi_running = False,
                  event_handlers = [''increment'' \<mapsto> increment, ''boom'' \<mapsto> broken],
                  app = 0\<rparr>"
  by (simp add: registered_def demo_eq)

lemma running_demo:
  "running demo quiet_world =
     (Inr False, demo\<lparr>log := [(DEBUG, ''Process had incorrect address.'', []),
                             (DEBUG, ''Process is not running. No .pid file found.'', [])]\<rparr>)"
  by (simp add: demo_eq quiet_world_def running_def probe_address_def
      check_pid_file_def pid_file_def path_exists_def log_call_def)

lemma start_demo:
  "start demo quiet_world =
     (Inr (),
      \<lparr>name = PStr ''demo'', app_dir = PStr ''/tmp/demo'', pid = PInt 4242,
       address = PStr ''http://127.0.0.1:9876'', debug = False,
       log = [(DEBUG, ''Process had incorrect address.'', []),
              (DEBUG, ''Process is not running. No .pid file found.'', []),
              (INFO, ''Serving Process %s at %s'', [PInt 4242, PStr ''http://127.0.0.1:9876'']),
              (DEBUG, ''Creating /tmp/demo'', []),
              (DEBUG, ''Writing /tmp/demo/.pid'', [])],
       wsgi_thread = Some (PStr ''9876''), wsgi_running = True,
       event_handlers = Map.empty, app = 0\<rparr>,
      quiet_world\<lparr>hooks := [''SIGTERM'', ''SIGINT'', ''atexit''],
                   dirs := {''/tmp/demo''},
                   files := [''/tmp/demo/.pid'' \<mapsto>
                               ''4242'' @ [CHR 0x0A] @ ''http://127.0.0.1:9876'']\<rparr>)"
  by (simp add: demo_eq quiet_world_def start_def running_def probe_address_def
      check_pid_file_def pid_file_def path_exists_def write_pid_file_def log_call_def
      split_last_def str_simps Let_def)

lemma served_eq:
  "served =
     \<lparr>name = PStr ''demo'', app_dir = PStr ''/tmp/demo'', pid = PInt 4242,
      address = PStr ''http://127.0.0.1:9876'', debug = False,
      log = [(DEBUG, ''Process had incorrect address.'', []),
             (DEBUG, ''Process is not running. No .pid file found.'', []),
             (INFO, ''Serving Process %s at %s'', [PInt 4242, PStr ''http://127.0.0.1:9876'']),
             (DEBUG, ''Creating /tmp/demo'', []),
             (DEBUG, ''Writing /tmp/demo/.pid'', [])],
      wsgi_thread = Some (PStr ''9876''), wsgi_running = True,
      event_handlers = Map.empty, app = 0\<rparr>"
  by (simp add: served_def start_demo)

lemma served_world_eq:
  "served_world =
     quiet_world\<lparr>hooks := [''SIGTERM'', ''SIGINT'', ''atexit''],
                  dirs := {''/tmp/demo''},
                  files := [''/tmp/demo/.pid'' \<mapsto>
                              ''4242'' @ [CHR 0x0A] @ ''http://127.0.0.1:9876'']\<rparr>"
  by (simp add: served_world_def start_demo)


section \<open>What the liveness checker leaves behind\<close>

lemma log_call_fields [simp]:
  "app_dir (log_call l m xs s) = app_dir s"
  "address (log_call l m xs s) = address s"
  "name (log_call l m xs s) = name s"
  "pid (log_call l m xs s) = pid s"
  "wsgi_running (log_call l m xs s) = wsgi_running s"
  "wsgi_thread (log_call l m xs s) = wsgi_thread s"
  "event_handlers (log_call l m xs s) = event_handlers s"
  "app (log_call l m xs s) = app s"
  by (simp_all add: log_call_def)









text \<open>What the lock store does in general. A file written by \<^verbatim>\<open>_write_pid_file\<close>
  for an address that is not empty and has no line feed is read back as two lines: the
  decimal text of the pid with its line feed, and the address.\<close>

lemma readlines_single:
  "CHR 0x0A \<notin> set a \<Longrightarrow> a \<noteq> [] \<Longrightarrow> readlines a = [a]"
proof (induction a)
  case Nil
  then show ?case by simp
next
  case (Cons c cs)
  then show ?case by (cases cs) auto
qed

lemma readlines_first:
  "CHR 0x0A \<notin> set x \<Longrightarrow> readlines (x @ CHR 0x0A # rest) = (x @ [CHR 0x0A]) # readlines rest"
  by (induction x) auto

lemma digit_char_no_line_feed: "d < 10 \<Longrightarrow> digit_char d \<noteq> CHR 0x0A"
proof -
  assume "d < 10"
  then have "d \<in> {0, 1, 2, 3, 4, 5, 6, 7, 8, 9}" by auto
  then show ?thesis by (auto simp: digit_char_def)
qed

lemma str_nat_no_line_feed: "CHR 0x0A \<notin> set (str_nat n)"
proof (induction n rule: str_nat.induct)
  case (1 n)
  show ?case
  proof (cases "n < 10")
    case True
    then show ?thesis
      using digit_char_no_line_feed [of n] by (subst str_nat.simps) auto
  next
    case False
    have "n mod 10 < 10" by simp
    with False 1 show ?thesis
      using digit_char_no_line_feed [of "n mod 10"] by (subst str_nat.simps) auto
  qed
qed

lemma str_int_no_line_feed: "CHR 0x0A \<notin> set (str_int i)"
  by (simp add: str_int_def str_nat_no_line_feed)

lemma write_then_read_pid_file:
  assumes "app_dir s = PStr d" and "address s = PStr a"
    and "a \<noteq> []" and "CHR 0x0A \<notin> set a"
    and "write_pid_file s w p x = (r, s1, w1)"
  shows "r = Inr () \<and> fst (read_pid_file s1 w1) = Inr (str_int p @ [CHR 0x0A], a)"
proof -
  have "readlines (str_int p @ CHR 0x0A # a) = [str_int p @ [CHR 0x0A], a]"
    using assms(3,4) by (simp add: readlines_first str_int_no_line_feed readlines_single)
  with assms(1,2,5) show ?thesis
    by (auto simp: write_pid_file_def read_pid_file_def pid_file_def Let_def log_call_def
        split: if_splits)
qed

section \<open>The claims\<close>

subsection \<open>Lifecycle\<close>



text \<open>
  Claim C2. After \<^verbatim>\<open>start()\<close> has written the lock file, reading it back should give
  the pid and the address that were written, the ones \<^verbatim>\<open>GET /\<close> reports. On the
  instance \<open>demo\<close> the file has its two lines and the address comes back, but the pid
  comes back as the text of the first line with its line feed, \<^verbatim>\<open>'4242\n'\<close>: neither the
  integer 4242 that was written nor the \<^verbatim>\<open>'4242'\<close> of \<^verbatim>\<open>GET /\<close>.
\<close>

theorem lock_file_read_back_keeps_line_feed:
  "fst (start demo quiet_world) = Inr ()
   \<and> pid served = PInt 4242
   \<and> files served_world ''/tmp/demo/.pid'' =
       Some (''4242'' @ [CHR 0x0A] @ ''http://127.0.0.1:9876'')
   \<and> fst (read_pid_file served served_world) =
       Inr (''4242'' @ [CHR 0x0A], ''http://127.0.0.1:9876'')
   \<and> subscript (index served served_world) ''pid'' = Inr (PStr ''4242'')
   \<and> subscript (index served served_world) ''address'' = Inr (PStr ''http://127.0.0.1:9876'')"
proof -
  have "fst (start demo quiet_world) = Inr ()"
    by (simp add: start_demo)
  moreover have "files served_world ''/tmp/demo/.pid'' =
      Some (''4242'' @ [CHR 0x0A] @ ''http://127.0.0.1:9876'')"
    by (simp add: served_world_eq)
  moreover have "fst (read_pid_file served served_world) =
      Inr (''4242'' @ [CHR 0x0A], ''http://127.0.0.1:9876'')"
    by (simp add: served_eq served_world_eq read_pid_file_def pid_file_def log_call_def)
  moreover have "subscript (index served served_world) ''pid'' = Inr (PStr ''4242'')"
    by (simp add: served_world_eq quiet_world_def index_def str_simps)
  moreover have "subscript (index served served_world) ''address'' =
      Inr (PStr ''http://127.0.0.1:9876'')"
    by (simp add: served_eq index_def)
  moreover have "pid served = PInt 4242"
    by (simp add: served_eq)
  ultimately show ?thesis
    by simp
qed

subsection \<open>Control-plane server\<close>

text \<open>
  Claim C3, as amended. \<^verbatim>\<open>GET /\<close> answers with a JSON object of five fields. Four of
  them are \<^verbatim>\<open>name\<close>, \<^verbatim>\<open>pid\<close>, \<^verbatim>\<open>app_dir\<close> and \<^verbatim>\<open>address\<close>: the name, directory
  and address are the attributes of the instance, and the pid is the decimal text of the
  server's process id, a string.
\<close>

theorem index_identity_snapshot:
  "\<exists>kvs. index s w = PDict kvs \<and> length kvs = 5
     \<and> map_of kvs ''name'' = Some (name s)
     \<and> map_of kvs ''pid'' = Some (PStr (str_int (getpid w)))
     \<and> map_of kvs ''app_dir'' = Some (app_dir s)
     \<and> map_of kvs ''address'' = Some (address s)"
  by (simp add: index_def)

text \<open>Claim C3 as it was stated fails on the instance \<open>demo\<close> once started: the answer
  of \<^verbatim>\<open>GET /\<close> does not have both a field \<^verbatim>\<open>success\<close> that is true and the integer
  process id as \<^verbatim>\<open>pid\<close>.\<close>

theorem index_success_and_integer_pid_counterexample:
  "\<not> (subscript (index served served_world) ''success'' = Inr (PBool True)
      \<and> subscript (index served served_world) ''pid'' = Inr (PInt (getpid served_world)))"
  by (simp add: index_def)

subsection \<open>Stopping\<close>

text \<open>
  Claim C4. \<^verbatim>\<open>stop()\<close> should tolerate a refused POST of the stop event and return
  normally. On the started instance \<open>demo\<close>, whose server no longer accepts connections,
  the liveness check answers true, the POST raises \<^verbatim>\<open>ConnectionError\<close>, the error is
  logged and the state is reset, and then \<^verbatim>\<open>stop()\<close> raises \<^verbatim>\<open>UnboundLocalError\<close>.
\<close>

theorem stop_refused_raises_UnboundLocalError:
  "wsgi_running served
   \<and> fst (running served served_world) = Inr True
   \<and> fst (send served served_world ''stop'' PNone) = Inl ConnectionError
   \<and> fst (stop served served_world) = Inl UnboundLocalError
   \<and> (ERROR, ''Process wsgi server already shutdown.'', [])
        \<in> set (log (snd (stop served served_world)))
   \<and> wsgi_running (snd (stop served served_world)) = False
   \<and> wsgi_thread (snd (stop served served_world)) = None"
  by (simp add: served_eq served_world_eq quiet_world_def stop_def send_def running_def
      reply_json_def stop_finish_def log_call_def Let_def lstrip_def)

subsection \<open>Liveness checker\<close>

text \<open>
  Claim C5. In its last step the liveness checker should answer false when the GET to the
  recorded address gets no response. On a Windows machine with a stale lock file, the
  recorded pid in use and nothing listening on the recorded address, the check reaches that
  GET (its last log line is the one before it) and the \<^verbatim>\<open>ConnectionError\<close> of the GET
  leaves \<^verbatim>\<open>running\<close>.
\<close>

theorem running_last_probe_raises_ConnectionError:
  "fst (read_pid_file newcomer stale_world) = Inr (''4242'' @ [CHR 0x0A], ''http://127.0.0.1:9876'')
   \<and> fst (running newcomer stale_world) = Inl ConnectionError
   \<and> last (log (snd (running newcomer stale_world))) =
       (DEBUG, ''Checking http://127.0.0.1:9876'', [])"
  by (simp add: newcomer_eq stale_world_def running_def probe_address_def
      check_pid_file_def pid_file_def path_exists_def read_pid_file_def check_process_def
      check_server_def log_call_def)

subsection \<open>Remote client\<close>

text \<open>
  Claim C6. Whenever the liveness checker answers false, \<^verbatim>\<open>stop()\<close>, \<^verbatim>\<open>get(route)\<close>
  and \<^verbatim>\<open>send(route, payload)\<close> each raise \<^verbatim>\<open>ProcessDoesNotExist\<close>, whatever the
  route and the payload. A never-started instance is one such process, as long as the
  checker finds nobody alive; the instance \<open>demo\<close> of the witness is never started.
\<close>

theorem stop_get_send_ProcessDoesNotExist:
  "running s w = (Inr False, s1) \<Longrightarrow>
     stop s w = (Inl ProcessDoesNotExist, s1)
     \<and> get s w route = (Inl ProcessDoesNotExist, s1)
     \<and> send s w route payload = (Inl ProcessDoesNotExist, s1)"
  by (simp add: stop_def get_def send_def)

theorem stop_get_send_ProcessDoesNotExist_witness:
  "wsgi_running demo = False \<and> wsgi_thread demo = None
   \<and> fst (running demo quiet_world) = Inr False
   \<and> fst (stop demo quiet_world) = Inl ProcessDoesNotExist
   \<and> fst (get demo quiet_world ''/'') = Inl ProcessDoesNotExist
   \<and> fst (send demo quiet_world ''event'' (PDict [(''name'', PStr ''ack'')]))
       = Inl ProcessDoesNotExist"
  using stop_get_send_ProcessDoesNotExist [OF running_demo, of "''/''"]
    stop_get_send_ProcessDoesNotExist [OF running_demo, of "''event''"
      "PDict [(''name'', PStr ''ack'')]"]
    running_demo
  by (simp add: demo_eq)

subsection \<open>Events\<close>

text \<open>
  Claim C7. When the body of \<^verbatim>\<open>POST /event\<close> is a JSON object without the key
  \<^verbatim>\<open>name\<close>, the response is \<^verbatim>\<open>success\<close> false with the message
  \<^verbatim>\<open>Event missing required field "name".\<close>, and the process is exactly as before,
  whatever handlers are registered: none was called, nothing was dispatched or logged.
\<close>

theorem receive_event_missing_name:
  "''name'' \<notin> fst ` set kvs \<Longrightarrow>
   receive_event s (PDict kvs) =
     (Inr (PDict [(''success'', PBool False), (''message'', PStr missing_name_message)]), s)"
  by (simp add: receive_event_def)

theorem receive_event_missing_name_witness:
  "''name'' \<notin> fst ` set ([] :: (string \<times> pyval) list)
   \<and> receive_event registered (PDict []) =
       (Inr (PDict [(''success'', PBool False),
                    (''message'', PStr (''Event missing required field '' @ [CHR 0x22]
                                         @ ''name'' @ [CHR 0x22] @ ''.''))]),
        registered)"
  using receive_event_missing_name [of "[]" registered]
  by (simp add: missing_name_message_def)

text \<open>
  Claim C8. When the handler registered for the name of an event raises an exception (an
  instance of \<^verbatim>\<open>Exception\<close>), the dispatch returns a response: \<^verbatim>\<open>success\<close> false and
  the traceback as the message. The failure is logged, and nothing is raised.
\<close>

theorem handle_event_handler_raises:
  "subscript event ''name'' = Inr (PStr n) \<Longrightarrow>
   event_handlers s n = Some h \<Longrightarrow>
   h event (app s) = (Inl (e, tb), a) \<Longrightarrow>
   is_Exception e \<Longrightarrow>
   handle_event s event =
     (Inr (PDict [(''success'', PBool False), (''message'', PStr tb)]),
      log_call ERROR ''Event handler raise an exception...'' [] (s\<lparr>app := a\<rparr>))"
  by (simp add: handle_event_def handler_failed_def)

theorem handle_event_handler_raises_witness:
  "subscript (PDict [(''name'', PStr ''boom'')]) ''name'' = Inr (PStr ''boom'')
   \<and> event_handlers registered ''boom'' = Some broken
   \<and> broken (PDict [(''name'', PStr ''boom'')]) (app registered) =
       (Inl (ValueError, ''Traceback (most recent call last): ValueError: boom''), 0)
   \<and> is_Exception ValueError
   \<and> handle_event registered (PDict [(''name'', PStr ''boom'')]) =
       (Inr (PDict [(''success'', PBool False),
                    (''message'', PStr ''Traceback (most recent call last): ValueError: boom'')]),
        log_call ERROR ''Event handler raise an exception...'' [] (registered\<lparr>app := 0\<rparr>))"
  using handle_event_handler_raises [of "PDict [(''name'', PStr ''boom'')]" "''boom''"
      registered broken ValueError "''Traceback (most recent call last): ValueError: boom''" 0]
  by (simp add: registered_eq broken_def)

text \<open>
  Claim C9. When no handler is registered for the name of an event, the dispatch returns
  \<^verbatim>\<open>success\<close> true with a message that is not empty, and the process, its registry
  included, is exactly as before.
\<close>

theorem handle_event_no_handler:
  "subscript event ''name'' = Inr (PStr n) \<Longrightarrow>
   event_handlers s n = None \<Longrightarrow>
   handle_event s event =
     (Inr (PDict [(''success'', PBool True),
                  (''message'', PStr (''Event received. no handler found for '' @ n))]),
      s)
   \<and> ''Event received. no handler found for '' @ n \<noteq> []"
  by (simp add: handle_event_def)

theorem handle_event_no_handler_witness:
  "subscript (PDict [(''name'', PStr ''ack'')]) ''name'' = Inr (PStr ''ack'')
   \<and> event_handlers registered ''ack'' = None
   \<and> handle_event registered (PDict [(''name'', PStr ''ack'')]) =
       (Inr (PDict [(''success'', PBool True),
                    (''message'', PStr ''Event received. no handler found for ack'')]),
        registered)"
  using handle_event_no_handler [of "PDict [(''name'', PStr ''ack'')]" "''ack''" registered]
  by (simp add: registered_eq)

text \<open>
  Claim C10. \<^verbatim>\<open>unregister_event_handler(e)\<close> never raises, also when nothing is
  registered for \<^verbatim>\<open>e\<close>; afterwards the registry has no entry for \<^verbatim>\<open>e\<close>, and the
  handler of every other name is the one it was.
\<close>

theorem unregister_event_handler_frame:
  "\<exists>s'. unregister_event_handler s e = Inr s'
        \<and> event_handlers s' e = None
        \<and> (\<forall>e'. e' \<noteq> e \<longrightarrow> event_handlers s' e' = event_handlers s e')"
  by (simp add: unregister_event_handler_def log_call_def)

theorem unregister_event_handler_frame_witness:
  "(\<exists>s'. unregister_event_handler registered ''boom'' = Inr s'
         \<and> event_handlers s' ''boom'' = None
         \<and> event_handlers s' ''increment'' = Some increment)
   \<and> (\<exists>s'. unregister_event_handler registered ''ack'' = Inr s'
         \<and> event_handlers s' ''ack'' = None
         \<and> event_handlers s' ''increment'' = Some increment
         \<and> event_handlers s' ''boom'' = Some broken)"
  using unregister_event_handler_frame [of registered "''boom''"]
    unregister_event_handler_frame [of registered "''ack''"]
  by (auto simp: registered_eq)

end
